theory Spec2Isabelle
  imports Complex_Main
begin

section \<open>The Heston process of \<^verbatim>\<open>ql/processes/hestonprocess.cpp\<close>\<close>

text \<open>
  The source computes on C++ \<^verbatim>\<open>double\<close>s (\<^verbatim>\<open>Real\<close>, \<^verbatim>\<open>Time\<close>). This development
  reads every \<^verbatim>\<open>double\<close> as a real number and every arithmetic operation, \<^verbatim>\<open>std::sqrt\<close>,
  \<^verbatim>\<open>std::exp\<close> and \<^verbatim>\<open>std::fabs\<close> as the exact operation on \<^typ>\<open>real\<close>. Rounding,
  overflow, underflow, infinities and NaN are outside the model. The model therefore
  does not decide properties that real arithmetic has and \<^verbatim>\<open>double\<close> arithmetic has not:
  that \<open>sqrt v * sqrt v\<close> is \<open>v\<close> (the machine rounds the root and the product), that
  \<open>exp x\<close> is positive (the machine underflows to \<open>0\<close>), or what a division by zero
  gives (\<open>x / 0 = 0\<close> in HOL, an infinity or a NaN on the machine). The general
  theorems below do not rest on these: they compare the expressions the source computes
  with the specification's, follow the control flow and the errors, and use the sign of
  \<open>1 - exp (- \<kappa> dt)\<close>. The values at concrete inputs are those of exact arithmetic.
\<close>

subsection \<open>Data\<close>

text \<open>
  An \<^verbatim>\<open>Array\<close> of the process has \<^verbatim>\<open>size() = 2\<close>: \<^verbatim>\<open>x[0]\<close> is the first component of
  the pair (the price for a state, the first shock for \<^verbatim>\<open>dw\<close>) and \<^verbatim>\<open>x[1]\<close> the second
  (the variance, the second shock).
\<close>

type_synonym Array2 = "real \<times> real"

text \<open>
  The selector \<^verbatim>\<open>discretization_\<close>. The enumeration is declared in the header, which is
  not part of the source file; the four enumerators below are the ones the source names.
  \<open>Unlisted k\<close> stands for any other value the selector can hold (an enumerator the
  source file never names, or an integer cast to the enumeration).
\<close>

datatype Discretization =
    PartialTruncation
  | FullTruncation
  | Reflection
  | ExactVariance
  | Unlisted nat

text \<open>\<^verbatim>\<open>QL_FAIL(msg)\<close> throws an \<^verbatim>\<open>Error\<close> that carries the message.\<close>

datatype error = Error string

text \<open>
  The members of \<^verbatim>\<open>HestonProcess\<close>. The two yield curves are read through
  \<^verbatim>\<open>forwardRate(t1, t2, Continuous)\<close> only, so each is the function of \<open>t1\<close> and \<open>t2\<close>;
  \<open>s0\<close> is \<^verbatim>\<open>s0_->value()\<close>.
\<close>

record HestonProcess =
  riskFreeRate :: "real \<Rightarrow> real \<Rightarrow> real"
  dividendYield :: "real \<Rightarrow> real \<Rightarrow> real"
  s0 :: real
  v0 :: real
  kappa :: real
  theta :: real
  sigma :: real
  rho :: real
  discretization :: Discretization

text \<open>
  The numerical primitives that \<^verbatim>\<open>evolve\<close> calls and that are defined elsewhere in the
  library: \<^verbatim>\<open>CumulativeNormalDistribution()(x)\<close>,
  \<^verbatim>\<open>InverseNonCentralChiSquareDistribution(df, ncp, maxEvaluations)(p)\<close>, which can throw
  (its root search has a bounded number of evaluations), and the macro \<^verbatim>\<open>QL_EPSILON\<close>.
  They are parameters of the model.
\<close>

record Numerics =
  CumulativeNormalDistribution :: "real \<Rightarrow> real"
  InverseNonCentralChiSquareDistribution :: "real \<Rightarrow> real \<Rightarrow> nat \<Rightarrow> real \<Rightarrow> error + real"
  QL_EPSILON :: real

subsection \<open>Operations\<close>

definition initialValues :: "HestonProcess \<Rightarrow> Array2" where
  "initialValues P = (s0 P, v0 P)"

definition drift :: "HestonProcess \<Rightarrow> real \<Rightarrow> Array2 \<Rightarrow> Array2" where
  "drift P t x =
     (let vol = (if snd x > 0.0 then sqrt (snd x)
                 else if discretization P = Reflection then - sqrt (- snd x)
                 else 0.0)
      in (riskFreeRate P t t - dividendYield P t t - 0.5 * vol * vol,
          kappa P * (theta P - (if discretization P = PartialTruncation then snd x
                                else vol * vol))))"

text \<open>The result is the matrix by rows: \<open>((m00, m01), (m10, m11))\<close>.\<close>

definition diffusion :: "HestonProcess \<Rightarrow> real \<Rightarrow> Array2 \<Rightarrow> Array2 \<times> Array2" where
  "diffusion P t x =
     (let vol = (if snd x > 0.0 then sqrt (snd x)
                 else if discretization P = Reflection then - sqrt (- snd x)
                 else 1 / 10 ^ 8);
          sigma2 = sigma P * vol;
          sqrhov = sqrt (1.0 - rho P * rho P)
      in ((vol, 0.0), (rho P * sigma2, sqrhov * sigma2)))"

definition evolve ::
  "Numerics \<Rightarrow> HestonProcess \<Rightarrow> real \<Rightarrow> Array2 \<Rightarrow> real \<Rightarrow> Array2 \<Rightarrow> error + Array2" where
  "evolve N P t0 x0 dt dw =
     (let sdt = sqrt dt;
          sqrhov = sqrt (1.0 - rho P * rho P)
      in case discretization P of
        PartialTruncation \<Rightarrow>
          (let vol = (if snd x0 > 0.0 then sqrt (snd x0) else 0.0);
               vol2 = sigma P * vol;
               mu = riskFreeRate P t0 (t0 + dt) - dividendYield P t0 (t0 + dt)
                    - 0.5 * vol * vol;
               nu = kappa P * (theta P - snd x0)
           in Inr (fst x0 * exp (mu * dt + vol * fst dw * sdt),
                   snd x0 + nu * dt + vol2 * sdt * (rho P * fst dw + sqrhov * snd dw)))
      | FullTruncation \<Rightarrow>
          (let vol = (if snd x0 > 0.0 then sqrt (snd x0) else 0.0);
               vol2 = sigma P * vol;
               mu = riskFreeRate P t0 (t0 + dt) - dividendYield P t0 (t0 + dt)
                    - 0.5 * vol * vol;
               nu = kappa P * (theta P - vol * vol)
           in Inr (fst x0 * exp (mu * dt + vol * fst dw * sdt),
                   snd x0 + nu * dt + vol2 * sdt * (rho P * fst dw + sqrhov * snd dw)))
      | Reflection \<Rightarrow>
          (let vol = sqrt \<bar>snd x0\<bar>;
               vol2 = sigma P * vol;
               mu = riskFreeRate P t0 (t0 + dt) - dividendYield P t0 (t0 + dt)
                    - 0.5 * vol * vol;
               nu = kappa P * (theta P - vol * vol)
           in Inr (fst x0 * exp (mu * dt + vol * fst dw * sdt),
                   vol * vol + nu * dt + vol2 * sdt * (rho P * fst dw + sqrhov * snd dw)))
      | ExactVariance \<Rightarrow>
          (let vol = (if snd x0 > 0.0 then sqrt (snd x0) else 0.0);
               mu = riskFreeRate P t0 (t0 + dt) - dividendYield P t0 (t0 + dt)
                    - 0.5 * vol * vol;
               df = 4 * theta P * kappa P / (sigma P * sigma P);
               ncp = 4 * kappa P * exp (- kappa P * dt)
                     / (sigma P * sigma P * (1 - exp (- kappa P * dt))) * snd x0;
               p = CumulativeNormalDistribution N (snd dw);
               p = (if p < 0.0 then 0.0
                    else if p \<ge> 1.0 then 1.0 - QL_EPSILON N
                    else p)
           in case InverseNonCentralChiSquareDistribution N df ncp 100 p of
                Inl e \<Rightarrow> Inl e
              | Inr q \<Rightarrow>
                  (let retVal1 = sigma P * sigma P * (1 - exp (- kappa P * dt))
                                 / (4 * kappa P) * q;
                       dy = (mu - rho P / sigma P * kappa P * (theta P - vol * vol)) * dt
                            + vol * sqrhov * fst dw * sdt
                   in Inr (fst x0 * exp (dy + rho P / sigma P * (retVal1 - snd x0)),
                           retVal1)))
      | Unlisted k \<Rightarrow> Inl (Error ''unknown discretization schema''))"

subsection \<open>The specification's formulas\<close>

text \<open>
  The definitions of this subsection are written from the specification's wording, not
  from the source; the theorems compare them with the operations above.

  The drift of section 4.2: \<open>vol\<close> is the square root of the variance when it is positive,
  otherwise minus the square root of its absolute value under Reflection, otherwise \<open>0\<close>;
  \<open>X\<close> is the variance under PartialTruncation and \<open>vol\<^sup>2\<close> otherwise.
\<close>

definition drift_spec :: "HestonProcess \<Rightarrow> real \<Rightarrow> Array2 \<Rightarrow> Array2" where
  "drift_spec P t x =
     (let vol = (if snd x > 0 then sqrt (snd x)
                 else if discretization P = Reflection then - sqrt \<bar>snd x\<bar>
                 else 0);
          X = (if discretization P = PartialTruncation then snd x else vol\<^sup>2)
      in (riskFreeRate P t t - dividendYield P t t - 1 / 2 * vol\<^sup>2,
          kappa P * (theta P - X)))"

text \<open>
  Section 4.4: \<open>fwdDrift\<close> is the forward risk-free rate minus the forward dividend yield
  over the step; the truncated \<open>vol\<close>; step 6 of ExactVariance as the specification
  writes it (\<open>dy_spec\<close>), and the same with the term \<open>- vol\<^sup>2 / 2\<close> of the drift \<open>\<mu>\<close> kept
  (\<open>dy_mu\<close>).
\<close>

definition fwdDrift :: "HestonProcess \<Rightarrow> real \<Rightarrow> real \<Rightarrow> real" where
  "fwdDrift P t0 dt = riskFreeRate P t0 (t0 + dt) - dividendYield P t0 (t0 + dt)"

definition truncatedVol :: "real \<Rightarrow> real" where
  "truncatedVol v = (if v > 0 then sqrt v else 0)"

definition dy_spec :: "HestonProcess \<Rightarrow> real \<Rightarrow> Array2 \<Rightarrow> real \<Rightarrow> Array2 \<Rightarrow> real" where
  "dy_spec P t0 x0 dt dw =
     (fwdDrift P t0 dt
        - (rho P / sigma P) * kappa P * (theta P - (truncatedVol (snd x0))\<^sup>2)) * dt
     + truncatedVol (snd x0) * sqrt (1 - (rho P)\<^sup>2) * fst dw * sqrt dt"

definition dy_mu :: "HestonProcess \<Rightarrow> real \<Rightarrow> Array2 \<Rightarrow> real \<Rightarrow> Array2 \<Rightarrow> real" where
  "dy_mu P t0 x0 dt dw =
     (fwdDrift P t0 dt - 1 / 2 * (truncatedVol (snd x0))\<^sup>2
        - (rho P / sigma P) * kappa P * (theta P - (truncatedVol (snd x0))\<^sup>2)) * dt
     + truncatedVol (snd x0) * sqrt (1 - (rho P)\<^sup>2) * fst dw * sqrt dt"

text \<open>
  Step 3: values that are at least \<open>1\<close> are mapped to \<open>1 - \<epsilon>\<close>, negative values to \<open>0\<close>.
\<close>

definition clamp_spec :: "real \<Rightarrow> real \<Rightarrow> real" where
  "clamp_spec eps p = (if p \<ge> 1 then 1 - eps else if p < 0 then 0 else p)"

text \<open>
  A quantile inversion that accepts the probability \<open>p0\<close> only, and throws at any other:
  \<open>evolve\<close> behaves the same with it exactly when \<open>p0\<close> is the only probability it
  passes.
\<close>

definition onlyAt :: "real \<Rightarrow> Numerics \<Rightarrow> Numerics" where
  "onlyAt p0 N =
     N\<lparr>InverseNonCentralChiSquareDistribution :=
         (\<lambda>df ncp n p. if p = p0 then InverseNonCentralChiSquareDistribution N df ncp n p
                       else Inl (Error ''unexpected probability''))\<rparr>"

subsection \<open>Concrete inputs\<close>

text \<open>
  The inputs at which the statements below are evaluated: flat yield curves, the
  parameters \<open>\<kappa> = 1.0\<close>, \<open>\<theta> = 0.04\<close>, \<open>\<sigma> = 0.2\<close>, \<open>\<rho> = -0.5\<close>, \<open>v0 = 0.04\<close>, spot
  \<open>100\<close>, and stand-ins for the numerical primitives: the normal distribution function
  returns \<open>c\<close> (\<open>0.5\<close> is its value at the shock \<open>0\<close>, and \<open>1\<close> what it rounds to at a
  large shock), and the quantile inversion returns \<open>q\<close>.
\<close>

definition flatForward :: "real \<Rightarrow> real \<Rightarrow> real \<Rightarrow> real" where
  "flatForward r t1 t2 = r"

definition exampleProcess :: "Discretization \<Rightarrow> HestonProcess" where
  "exampleProcess d =
     \<lparr>riskFreeRate = flatForward 0, dividendYield = flatForward 0, s0 = 100,
      v0 = 0.04, kappa = 1.0, theta = 0.04, sigma = 0.2, rho = - 0.5,
      discretization = d\<rparr>"

definition exampleNumerics :: "real \<Rightarrow> real \<Rightarrow> Numerics" where
  "exampleNumerics c q =
     \<lparr>CumulativeNormalDistribution = (\<lambda>x. c),
      InverseNonCentralChiSquareDistribution = (\<lambda>df ncp n p. Inr q),
      QL_EPSILON = 1 / 2 ^ 52\<rparr>"

section \<open>Properties\<close>

lemma sqrt_004: "sqrt (0.04::real) = 0.2"
  by (rule real_sqrt_unique) (simp_all add: power2_eq_square)

lemmas example_defs = exampleProcess_def exampleNumerics_def flatForward_def

subsection \<open>The selector\<close>

text \<open>
  C4, with the message of the source. For every selector value other than the four the
  switch handles, \<open>evolve\<close> fails with the error "unknown discretization schema" and
  returns no state.
\<close>

theorem evolve_unknown_discretization:
  assumes "discretization P \<notin> {PartialTruncation, FullTruncation, Reflection, ExactVariance}"
  shows "evolve N P t0 x0 dt dw = Inl (Error ''unknown discretization schema'')"
  using assms by (cases "discretization P") (simp_all add: evolve_def Let_def)

theorem evolve_unknown_discretization_witness:
  "discretization (exampleProcess (Unlisted 4))
     \<notin> {PartialTruncation, FullTruncation, Reflection, ExactVariance}
   \<and> evolve (exampleNumerics 0.5 1) (exampleProcess (Unlisted 4)) 0 (100, 0.04) (1 / 252) (0, 0)
       = Inl (Error ''unknown discretization schema'')"
  using evolve_unknown_discretization
    [of "exampleProcess (Unlisted 4)" "exampleNumerics 0.5 1" 0 "(100, 0.04)" "1 / 252" "(0, 0)"]
  by (simp add: exampleProcess_def)

text \<open>
  C4 with the message "unsupported discretization scheme" does not hold: that is not the
  error \<open>evolve\<close> fails with.
\<close>

theorem evolve_unknown_discretization_message_counterexample:
  "evolve (exampleNumerics 0.5 1) (exampleProcess (Unlisted 4)) 0 (100, 0.04) (1 / 252) (0, 0)
     = Inl (Error ''unknown discretization schema'')
   \<and> evolve (exampleNumerics 0.5 1) (exampleProcess (Unlisted 4)) 0 (100, 0.04) (1 / 252) (0, 0)
     \<noteq> Inl (Error ''unsupported discretization scheme'')"
  by (simp add: evolve_def exampleProcess_def)

subsection \<open>The drift\<close>

text \<open>
  C6. For every time and state, \<open>drift\<close> returns the pair the specification gives:
  \<open>(forwardRiskFreeRate(t,t) - forwardDividendYield(t,t) - vol\<^sup>2 / 2, \<kappa> (\<theta> - X))\<close> with
  \<open>vol\<close> and \<open>X\<close> as in \<open>drift_spec\<close>.
\<close>

theorem drift_meets_spec: "drift P t x = drift_spec P t x"
  by (simp add: drift_def drift_spec_def Let_def power2_eq_square)

subsection \<open>The exact-variance scheme\<close>

text \<open>
  The ExactVariance branch in one piece: the quantile inversion is called once, with the
  clamped probability, and its result \<open>q\<close> gives the next variance and the next price.
\<close>

lemma evolve_ExactVariance:
  assumes "discretization P = ExactVariance"
  shows "evolve N P t0 x0 dt dw =
     (case InverseNonCentralChiSquareDistribution N
             (4 * theta P * kappa P / (sigma P * sigma P))
             (4 * kappa P * exp (- kappa P * dt)
                / (sigma P * sigma P * (1 - exp (- kappa P * dt))) * snd x0)
             100
             (clamp_spec (QL_EPSILON N) (CumulativeNormalDistribution N (snd dw))) of
        Inl e \<Rightarrow> Inl e
      | Inr q \<Rightarrow>
          Inr (fst x0 * exp (dy_mu P t0 x0 dt dw
                 + rho P / sigma P
                   * (sigma P * sigma P * (1 - exp (- kappa P * dt)) / (4 * kappa P) * q
                      - snd x0)),
               sigma P * sigma P * (1 - exp (- kappa P * dt)) / (4 * kappa P) * q))"
  using assms
  by (simp add: evolve_def Let_def clamp_spec_def dy_mu_def fwdDrift_def truncatedVol_def
      power2_eq_square split: sum.splits)

lemma scale_nonneg:
  assumes "0 < (k::real)" and "0 < dt"
  shows "0 \<le> s * s * (1 - exp (- k * dt)) / (4 * k)"
proof -
  have "exp (- k * dt) < 1" using assms by simp
  moreover have "0 \<le> s * s" by simp
  ultimately have "0 \<le> (s * s) * (1 - exp (- k * dt))"
    using mult_nonneg_nonneg [of "s * s" "1 - exp (- k * dt)"] by simp
  then show ?thesis using assms by simp
qed

text \<open>
  C1 under ExactVariance, at the step \<open>dt = 0\<close> from the state \<open>(100, 0.04)\<close>. The
  divisor of \<open>ncp\<close>, \<open>\<sigma>\<^sup>2 (1 - exp (- \<kappa> dt))\<close>, is \<open>0\<close>, and so is the factor
  \<open>\<sigma>\<^sup>2 (1 - exp (- \<kappa> dt)) / (4 \<kappa>)\<close> of the next variance. Whatever the numerical primitives
  are (so whatever the quantile inversion makes of the \<open>ncp\<close> it is given) and whatever
  the shocks, \<open>evolve\<close> does not return the input state: it fails with the quantile
  inversion, or returns the variance \<open>0\<close> times the quantile, not \<open>0.04\<close>.
\<close>

theorem evolve_zero_step_ExactVariance:
  "sigma (exampleProcess ExactVariance) * sigma (exampleProcess ExactVariance)
     * (1 - exp (- kappa (exampleProcess ExactVariance) * 0)) = 0
   \<and> evolve N (exampleProcess ExactVariance) t0 (100, 0.04) 0 dw \<noteq> Inr (100, 0.04)
   \<and> (case evolve N (exampleProcess ExactVariance) t0 (100, 0.04) 0 dw of
         Inl e \<Rightarrow> (\<exists>df ncp p. InverseNonCentralChiSquareDistribution N df ncp 100 p = Inl e)
       | Inr s \<Rightarrow> snd s = 0)"
proof -
  have d: "discretization (exampleProcess ExactVariance) = ExactVariance"
    by (simp add: exampleProcess_def)
  show ?thesis
    unfolding evolve_ExactVariance [OF d]
    by (auto simp: exampleProcess_def split: sum.splits)
qed

text \<open>
  C2, with the drift \<open>\<mu>\<close> of the source. Under ExactVariance \<open>evolve\<close> fails only with an
  error of the quantile inversion, and the state it returns has the price
  \<open>x0.price * exp (dy + (\<rho> / \<sigma>) (nextVariance - x0.variance))\<close> where
  \<open>dy = (fwdDrift - vol\<^sup>2 / 2 - (\<rho> / \<sigma>) \<kappa> (\<theta> - vol\<^sup>2)) dt + vol sqrhov dw0 sdt\<close>.
\<close>

theorem evolve_ExactVariance_price:
  assumes "discretization P = ExactVariance"
  shows "case evolve N P t0 x0 dt dw of
           Inl e \<Rightarrow> (\<exists>df ncp p. InverseNonCentralChiSquareDistribution N df ncp 100 p = Inl e)
         | Inr s \<Rightarrow> fst s = fst x0 * exp (dy_mu P t0 x0 dt dw
                                + (rho P / sigma P) * (snd s - snd x0))"
  unfolding evolve_ExactVariance [OF assms]
  by (auto split: sum.splits)

theorem evolve_ExactVariance_price_witness:
  "discretization (exampleProcess ExactVariance) = ExactVariance
   \<and> dy_mu (exampleProcess ExactVariance) 0 (100, 0.04) 1 (0, 0) = - 0.02
   \<and> evolve (exampleNumerics 0.5 1) (exampleProcess ExactVariance) 0 (100, 0.04) 1 (0, 0)
       = Inr (100 * exp (- 0.02 + (- 0.5 / 0.2) * (0.04 * (1 - exp (- 1)) / 4 - 0.04)),
              0.04 * (1 - exp (- 1)) / 4)"
  using evolve_ExactVariance_price
    [where P = "exampleProcess ExactVariance" and N = "exampleNumerics 0.5 1" and ?t0.0 = 0
       and ?x0.0 = "(100, 0.04)" and dt = 1 and dw = "(0, 0)"]
  by (simp add: evolve_def example_defs sqrt_004 dy_mu_def fwdDrift_def truncatedVol_def)

text \<open>
  C2 with the specification's \<open>dy\<close>, which leaves \<open>- vol\<^sup>2 / 2\<close> out, does not hold: at the
  state \<open>(100, 0.04)\<close> with \<open>dt = 1\<close> and zero shocks the specification's \<open>dy\<close> is \<open>0\<close>, the
  source's is \<open>- 0.02\<close>, and the returned price is not the one the specification's
  formula gives.
\<close>

theorem evolve_ExactVariance_dy_counterexample:
  "dy_spec (exampleProcess ExactVariance) 0 (100, 0.04) 1 (0, 0) = 0
   \<and> (case evolve (exampleNumerics 0.5 1) (exampleProcess ExactVariance) 0 (100, 0.04) 1 (0, 0) of
         Inl e \<Rightarrow> False
       | Inr s \<Rightarrow>
           fst s \<noteq> 100 * exp (dy_spec (exampleProcess ExactVariance) 0 (100, 0.04) 1 (0, 0)
                      + (rho (exampleProcess ExactVariance) / sigma (exampleProcess ExactVariance))
                        * (snd s - 0.04)))"
  by (simp add: evolve_def example_defs sqrt_004 dy_spec_def fwdDrift_def truncatedVol_def)

text \<open>
  C7. Under ExactVariance the probability passed to the quantile inversion is the normal
  distribution function of the second shock clamped as the specification says; it lies
  in \<open>[0, 1)\<close>, and the quantile inversion is called at no other probability. The macro
  \<open>QL_EPSILON\<close> is taken to lie in \<open>(0, 1]\<close>.
\<close>

theorem evolve_quantile_probability_clamped:
  assumes "0 < QL_EPSILON N" and "QL_EPSILON N \<le> 1"
  shows "0 \<le> clamp_spec (QL_EPSILON N) (CumulativeNormalDistribution N (snd dw))
       \<and> clamp_spec (QL_EPSILON N) (CumulativeNormalDistribution N (snd dw)) < 1
       \<and> evolve (onlyAt (clamp_spec (QL_EPSILON N) (CumulativeNormalDistribution N (snd dw))) N)
            P t0 x0 dt dw
         = evolve N P t0 x0 dt dw"
  using assms
  by (simp add: evolve_def onlyAt_def clamp_spec_def Let_def split: Discretization.splits)

theorem evolve_quantile_probability_clamped_witness:
  "0 < QL_EPSILON (exampleNumerics 1 1) \<and> QL_EPSILON (exampleNumerics 1 1) \<le> 1
   \<and> clamp_spec (QL_EPSILON (exampleNumerics 1 1))
        (CumulativeNormalDistribution (exampleNumerics 1 1) (snd (0 :: real, 40 :: real)))
       = 1 - 1 / 2 ^ 52
   \<and> evolve (onlyAt (1 - 1 / 2 ^ 52) (exampleNumerics 1 1)) (exampleProcess ExactVariance)
         0 (100, 0.04) 1 (0, 40)
       = evolve (exampleNumerics 1 1) (exampleProcess ExactVariance) 0 (100, 0.04) 1 (0, 40)"
  using evolve_quantile_probability_clamped
    [where N = "exampleNumerics 1 1" and dw = "(0, 40)" and P = "exampleProcess ExactVariance"
       and ?t0.0 = 0 and ?x0.0 = "(100, 0.04)" and dt = 1]
  by (simp add: exampleNumerics_def clamp_spec_def)

text \<open>
  C10. Under ExactVariance, for \<open>\<kappa> > 0\<close>, \<open>\<sigma> \<noteq> 0\<close> and \<open>dt > 0\<close>, the factor
  \<open>\<sigma>\<^sup>2 (1 - exp (- \<kappa> dt)) / (4 \<kappa>)\<close> is non-negative; \<open>evolve\<close> fails only with an error of
  the quantile inversion, and the variance it returns is the factor times the value
  \<open>q\<close> that the quantile inversion returned, hence non-negative when \<open>q\<close> is.
\<close>

theorem evolve_ExactVariance_variance:
  assumes "discretization P = ExactVariance" and "0 < kappa P" and "sigma P \<noteq> 0" and "0 < dt"
  shows "0 \<le> sigma P * sigma P * (1 - exp (- kappa P * dt)) / (4 * kappa P)
    \<and> (case evolve N P t0 x0 dt dw of
         Inl e \<Rightarrow> (\<exists>df ncp p. InverseNonCentralChiSquareDistribution N df ncp 100 p = Inl e)
       | Inr s \<Rightarrow> (\<exists>df ncp p q. InverseNonCentralChiSquareDistribution N df ncp 100 p = Inr q
                     \<and> snd s = sigma P * sigma P * (1 - exp (- kappa P * dt)) / (4 * kappa P) * q
                     \<and> (0 \<le> q \<longrightarrow> 0 \<le> snd s)))"
proof
  show sc: "0 \<le> sigma P * sigma P * (1 - exp (- kappa P * dt)) / (4 * kappa P)"
    using assms by (intro scale_nonneg)
  show "case evolve N P t0 x0 dt dw of
         Inl e \<Rightarrow> (\<exists>df ncp p. InverseNonCentralChiSquareDistribution N df ncp 100 p = Inl e)
       | Inr s \<Rightarrow> (\<exists>df ncp p q. InverseNonCentralChiSquareDistribution N df ncp 100 p = Inr q
                     \<and> snd s = sigma P * sigma P * (1 - exp (- kappa P * dt)) / (4 * kappa P) * q
                     \<and> (0 \<le> q \<longrightarrow> 0 \<le> snd s))"
  proof (cases "evolve N P t0 x0 dt dw")
    case (Inl e)
    then show ?thesis
      unfolding evolve_ExactVariance [OF assms(1)]
      by (auto split: sum.splits)
  next
    case (Inr s)
    then obtain q where q: "InverseNonCentralChiSquareDistribution N
             (4 * theta P * kappa P / (sigma P * sigma P))
             (4 * kappa P * exp (- kappa P * dt)
                / (sigma P * sigma P * (1 - exp (- kappa P * dt))) * snd x0)
             100
             (clamp_spec (QL_EPSILON N) (CumulativeNormalDistribution N (snd dw))) = Inr q"
      and s: "snd s = sigma P * sigma P * (1 - exp (- kappa P * dt)) / (4 * kappa P) * q"
      unfolding evolve_ExactVariance [OF assms(1)]
      by (auto split: sum.splits)
    have "0 \<le> q \<longrightarrow> 0 \<le> snd s"
      unfolding s using sc by (simp del: times_divide_eq_left)
    with q s Inr show ?thesis by auto
  qed
qed

theorem evolve_ExactVariance_variance_witness:
  "discretization (exampleProcess ExactVariance) = ExactVariance
   \<and> 0 < kappa (exampleProcess ExactVariance) \<and> sigma (exampleProcess ExactVariance) \<noteq> 0
   \<and> (0 :: real) < 1
   \<and> evolve (exampleNumerics 0.5 3) (exampleProcess ExactVariance) 0 (100, 0.04) 1 (0, 0)
       = Inr (100 * exp (- 0.02 + (- 0.5 / 0.2) * (0.04 * (1 - exp (- 1)) / 4 * 3 - 0.04)),
              0.04 * (1 - exp (- 1)) / 4 * 3)
   \<and> (0 :: real) \<le> 0.04 * (1 - exp (- 1)) / 4 * 3"
  using evolve_ExactVariance_variance
    [where P = "exampleProcess ExactVariance" and N = "exampleNumerics 0.5 3" and ?t0.0 = 0
       and ?x0.0 = "(100, 0.04)" and dt = 1 and dw = "(0, 0)"]
  by (simp add: evolve_def example_defs sqrt_004)

end
